theory Spec2Isabelle
  imports Complex_Main "HOL-Library.Word" "HOL-Library.Sublist"
begin

section \<open>System control commands (src-tauri/src/commands/system.rs)\<close>

text \<open>
  The Rust command \<^verbatim>\<open>set_brightness(level: u8)\<close> clamps its argument with
  \<^verbatim>\<open>level.clamp(5, 100)\<close>, formats it with \<^verbatim>\<open>format!("{}%", safe_level)\<close> and runs
  \<^verbatim>\<open>brightnessctl set <n>%\<close> through \<^verbatim>\<open>Command::output()\<close>. The operating system is a
  parameter: for each command line it either fails to run it (an I/O error) or returns
  the output of the finished process; the commands that were run are recorded.
\<close>

type_synonym u8 = "8 word"

type_synonym command = "string \<times> string list"

record proc_output =
  status :: int
  stdout :: string
  stderr :: string

record os =
  spawn_result :: "command \<Rightarrow> string + proc_output"
  invoked :: "command list"

definition command_output :: "command \<Rightarrow> os \<Rightarrow> (string + proc_output) \<times> os" where
  "command_output c w = (spawn_result w c, w\<lparr>invoked := invoked w @ [c]\<rparr>)"

text \<open>\<^verbatim>\<open>Ord::clamp\<close> of the Rust standard library.\<close>

definition clamp :: "u8 \<Rightarrow> u8 \<Rightarrow> u8 \<Rightarrow> u8" where
  "clamp x lo hi = (if x < lo then lo else if hi < x then hi else x)"

text \<open>Decimal formatting of an unsigned integer, as \<^verbatim>\<open>{}\<close> does.\<close>

definition digit_char :: "nat \<Rightarrow> char" where
  "digit_char d = ''0123456789'' ! d"

fun to_string :: "nat \<Rightarrow> string" where
  "to_string n = (if n < 10 then [digit_char n] else to_string (n div 10) @ [digit_char (n mod 10)])"

declare to_string.simps [simp del]

text \<open>
  Reading a decimal string back, to say which number a formatted argument denotes:
  the value of a digit character and of a string of digits.
\<close>

definition digit_value :: "char \<Rightarrow> nat" where
  "digit_value c = of_char c - 48"

definition decimal_value :: "string \<Rightarrow> nat" where
  "decimal_value cs = foldl (\<lambda>acc c. 10 * acc + digit_value c) 0 cs"

definition set_brightness :: "u8 \<Rightarrow> os \<Rightarrow> (string + unit) \<times> os" where
  "set_brightness level w =
     (let safe_level = clamp level 5 100 in
      case command_output (''brightnessctl'', [''set'', to_string (unat safe_level) @ ''%'']) w of
        (Inl e, w') \<Rightarrow> (Inl (''Failed to set brightness: '' @ e), w')
      | (Inr _, w') \<Rightarrow> (Inr (), w'))"

section \<open>Media storage commands (src-tauri/src/commands/media.rs)\<close>

text \<open>
  A path is the list of its components. The file system is a parameter: the home
  directory, \<^verbatim>\<open>canonicalize\<close> and \<^verbatim>\<open>remove_file\<close> of \<^verbatim>\<open>std::fs\<close>, each of which
  returns an I/O error or its result. \<^verbatim>\<open>Path::starts_with\<close> compares whole components,
  which is \<^const>\<open>prefix\<close> on the component lists.
\<close>

type_synonym fs_path = "string list"

record 'fs std_fs =
  home_dir :: "fs_path option"
  canonicalize :: "'fs \<Rightarrow> fs_path \<Rightarrow> string + fs_path"
  remove_file :: "'fs \<Rightarrow> fs_path \<Rightarrow> string + 'fs"

definition MEDIA_BASE :: fs_path where
  "MEDIA_BASE = [''.config'', ''honeybee'', ''media'']"

definition delete_media :: "'fs std_fs \<Rightarrow> fs_path \<Rightarrow> 'fs \<Rightarrow> (string + unit) \<times> 'fs" where
  "delete_media io file_path fs =
     (case home_dir io of
        None \<Rightarrow> (Inl ''Cannot determine home directory'', fs)
      | Some home \<Rightarrow>
          (let media_base = home @ MEDIA_BASE in
           case canonicalize io fs file_path of
             Inl _ \<Rightarrow> (Inl ''File not found'', fs)
           | Inr canonical_path \<Rightarrow>
               (case canonicalize io fs media_base of
                  Inl _ \<Rightarrow> (Inl ''Media directory not found'', fs)
                | Inr canonical_base \<Rightarrow>
                    if \<not> prefix canonical_base canonical_path
                    then (Inl ''Access denied: path outside media directory'', fs)
                    else (case remove_file io fs file_path of
                            Inl e \<Rightarrow> (Inl (''Failed to delete: '' @ e), fs)
                          | Inr fs' \<Rightarrow> (Inr (), fs')))))"

text \<open>
  A small file system for concrete runs: the state is the list of existing files, given
  by their canonical paths; \<^verbatim>\<open>link\<close> inside the media directory is a symbolic link to
  \<^verbatim>\<open>/etc/passwd\<close>, and \<^verbatim>\<open>audio/../../../secret\<close> climbs out of the media directory to
  \<^verbatim>\<open>~/.config/secret\<close>.
\<close>

definition demo_home :: fs_path where
  "demo_home = [''home'', ''kiosk'']"

definition demo_media :: fs_path where
  "demo_media = demo_home @ MEDIA_BASE"

definition demo_canonicalize :: "fs_path list \<Rightarrow> fs_path \<Rightarrow> string + fs_path" where
  "demo_canonicalize fs p =
     (if p = demo_media then Inr demo_media
      else if p = demo_media @ [''link''] then Inr [''etc'', ''passwd'']
      else if p = demo_media @ [''audio'', ''..'', ''..'', ''..'', ''secret'']
        then Inr (demo_home @ [''.config'', ''secret''])
      else if p \<in> set fs then Inr p
      else Inl ''No such file or directory'')"

definition demo_remove_file :: "fs_path list \<Rightarrow> fs_path \<Rightarrow> string + fs_path list" where
  "demo_remove_file fs p =
     (if p \<in> set fs then Inr (removeAll p fs) else Inl ''No such file or directory'')"

definition demo_io :: "fs_path list std_fs" where
  "demo_io = \<lparr>home_dir = Some demo_home, canonicalize = demo_canonicalize,
              remove_file = demo_remove_file\<rparr>"

definition demo_fs :: "fs_path list" where
  "demo_fs = [demo_media @ [''audio'', ''recording_1.webm''],
              demo_home @ [''.config'', ''secret''],
              [''etc'', ''passwd'']]"

section \<open>MusicApp (src/unnamed/part_000)\<close>

record RecordingInfo =
  filename :: string
  path :: string
  size_bytes :: nat
  modified :: nat

text \<open>
  The component state: the React state variables, the \<^verbatim>\<open>audioRef\<close> reference (the source
  of the audio element it holds, if any), and what the component did to the outside:
  the calls of \<^verbatim>\<open>pause()\<close> on audio elements (recorded by the element's source) and the
  lines written with \<^verbatim>\<open>console.error\<close>.
\<close>

record music_app =
  recordings :: "RecordingInfo list"
  loading :: bool
  currentTrack :: "RecordingInfo option"
  isPlaying :: bool
  confirmDelete :: "string option"
  deleting :: bool
  audioRef :: "string option"
  paused_audio :: "string list"
  console :: "string list"

text \<open>
  \<^verbatim>\<open>deleteRecording\<close> is an async callback whose closure holds the \<^verbatim>\<open>currentTrack\<close> of the
  render that created it (the dependency list is \<^verbatim>\<open>[currentTrack]\<close>). It sets
  \<^verbatim>\<open>deleting\<close>, awaits \<^verbatim>\<open>invoke("delete_recording", { path })\<close> and resumes with the
  outcome of that call: \<open>Inr ()\<close> when the backend resolved, \<open>Inl err\<close> when it rejected.
  \<open>deleteRecording_resume\<close> is the part after the \<^verbatim>\<open>await\<close>, run on the state of that
  moment with the captured track; the \<^verbatim>\<open>finally\<close> block runs on both paths.
\<close>

definition stop_playback :: "music_app \<Rightarrow> music_app" where
  "stop_playback s =
     (let s1 = (case audioRef s of
                  Some a \<Rightarrow> s\<lparr>paused_audio := paused_audio s @ [a], audioRef := None\<rparr>
                | None \<Rightarrow> s)
      in s1\<lparr>currentTrack := None, isPlaying := False\<rparr>)"

definition deleteRecording_finally :: "music_app \<Rightarrow> music_app" where
  "deleteRecording_finally s = s\<lparr>deleting := False, confirmDelete := None\<rparr>"

definition deleteRecording_resume ::
  "RecordingInfo option \<Rightarrow> string \<Rightarrow> string + unit \<Rightarrow> music_app \<Rightarrow> music_app" where
  "deleteRecording_resume captured p outcome s =
     (case outcome of
        Inr _ \<Rightarrow>
          (let s1 = (if map_option path captured = Some p then stop_playback s else s);
               s2 = s1\<lparr>recordings := filter (\<lambda>r. path r \<noteq> p) (recordings s1)\<rparr>
           in deleteRecording_finally s2)
      | Inl err \<Rightarrow>
          deleteRecording_finally (s\<lparr>console := console s @ [''Failed to delete: '' @ err]\<rparr>))"

definition deleteRecording :: "string \<Rightarrow> string + unit \<Rightarrow> music_app \<Rightarrow> music_app" where
  "deleteRecording p outcome s =
     deleteRecording_resume (currentTrack s) p outcome (s\<lparr>deleting := True\<rparr>)"

text \<open>
  \<^verbatim>\<open>playTrack\<close> pauses and drops the audio element in \<^verbatim>\<open>audioRef\<close>, then awaits
  \<^verbatim>\<open>invoke("read_audio_file", ...)\<close>, stores a new audio element for the data URL, sets
  \<^verbatim>\<open>currentTrack\<close>, awaits \<^verbatim>\<open>audio.play()\<close> and sets \<^verbatim>\<open>isPlaying\<close>; a rejection of either
  call is logged. The outcome says how far it got. The progress timer and the progress
  and duration values are not part of the state here.
\<close>

datatype play_outcome = ReadRejected string | PlayRejected string string | Played string

definition playTrack :: "RecordingInfo \<Rightarrow> play_outcome \<Rightarrow> music_app \<Rightarrow> music_app" where
  "playTrack recording outcome s =
     (let s1 = (case audioRef s of
                  Some a \<Rightarrow> s\<lparr>paused_audio := paused_audio s @ [a], audioRef := None\<rparr>
                | None \<Rightarrow> s)
      in case outcome of
           ReadRejected err \<Rightarrow> s1\<lparr>console := console s1 @ [''Failed to play: '' @ err]\<rparr>
         | PlayRejected dataUrl err \<Rightarrow>
             s1\<lparr>audioRef := Some dataUrl, currentTrack := Some recording,
                console := console s1 @ [''Failed to play: '' @ err]\<rparr>
         | Played dataUrl \<Rightarrow>
             s1\<lparr>audioRef := Some dataUrl, currentTrack := Some recording, isPlaying := True\<rparr>)"

definition demo_rec :: "string \<Rightarrow> nat \<Rightarrow> RecordingInfo" where
  "demo_rec p n = \<lparr>filename = p, path = ''/media/'' @ p, size_bytes = n, modified = n\<rparr>"

definition demo_idle_music :: music_app where
  "demo_idle_music = \<lparr>recordings = [demo_rec ''a.wav'' 1, demo_rec ''b.wav'' 2, demo_rec ''c.wav'' 3],
     loading = False, currentTrack = None, isPlaying = False,
     confirmDelete = Some ''/media/b.wav'', deleting = False,
     audioRef = None, paused_audio = [], console = []\<rparr>"

section \<open>Teardown code\<close>

subsection \<open>Cleanup on unmount of the eye tracker (IMPLEMENTATION.md)\<close>

text \<open>
  The scene is a tree of objects; \<^verbatim>\<open>scene.traverse(f)\<close> calls \<open>f\<close> on an object and then
  traverses its children in order. The cleanup is a sequence of calls on the outside
  world, recorded as a trace. \<^verbatim>\<open>await invoke('release_camera', { deviceId })\<close> either
  resolves or rejects; the snippet has no handler, so a rejection ends the cleanup
  there and is the outcome of the whole function.
\<close>

datatype object3d = Object3D (obj_name: string) (isMesh: bool) (children: "object3d list")

datatype effect =
    ClearInterval
  | InvokeReleaseCamera string
  | HolisticClose
  | RendererDispose
  | GeometryDispose string
  | MaterialDispose string

fun traverse :: "(object3d \<Rightarrow> 'a list) \<Rightarrow> object3d \<Rightarrow> 'a list" where
  "traverse f (Object3D n m cs) = f (Object3D n m cs) @ concat (map (traverse f) cs)"

definition dispose_mesh :: "object3d \<Rightarrow> effect list" where
  "dispose_mesh obj =
     (if isMesh obj then [GeometryDispose (obj_name obj), MaterialDispose (obj_name obj)] else [])"

definition cleanup :: "string \<Rightarrow> string + unit \<Rightarrow> object3d \<Rightarrow> (string + unit) \<times> effect list" where
  "cleanup deviceId released scene =
     (let t1 = [ClearInterval];
          t2 = t1 @ [InvokeReleaseCamera deviceId]
      in case released of
           Inl err \<Rightarrow> (Inl err, t2)
         | Inr _ \<Rightarrow>
             (let t3 = t2 @ [HolisticClose];
                  t4 = t3 @ [RendererDispose];
                  t5 = t4 @ traverse dispose_mesh scene
              in (Inr (), t5)))"

text \<open>The objects of a scene in the order in which \<^verbatim>\<open>traverse\<close> visits them.\<close>

fun objects :: "object3d \<Rightarrow> object3d list" where
  "objects (Object3D n m cs) = Object3D n m cs # concat (map objects cs)"

text \<open>
  The capture loop awaits \<^verbatim>\<open>holistic.send({ image: canvas })\<close>, so an inference call can
  be in flight when the cleanup starts. The cleanup clears the timer and invokes
  \<^verbatim>\<open>release_camera\<close> without yielding in between; the call in flight can settle only
  while the cleanup awaits the release. \<open>pending_during pending settled t\<close> pairs every
  step of a cleanup trace with whether the inference call is in flight when the step
  runs: \<open>pending\<close> says whether one is in flight at the start, \<open>settled\<close> whether it
  settles during the await.
\<close>

definition pending_during :: "bool \<Rightarrow> bool \<Rightarrow> effect list \<Rightarrow> (effect \<times> bool) list" where
  "pending_during pending settled t =
     zip t (replicate 2 pending @ replicate (length t - 2) (pending \<and> \<not> settled))"

text \<open>\<open>occurs_before a b t\<close>: \<open>a\<close> occurs in the trace and \<open>b\<close> occurs after its first occurrence.\<close>

definition occurs_before :: "effect \<Rightarrow> effect \<Rightarrow> effect list \<Rightarrow> bool" where
  "occurs_before a b t = (a \<in> set t \<and> b \<in> set (drop 1 (dropWhile (\<lambda>e. e \<noteq> a) t)))"

definition demo_scene :: object3d where
  "demo_scene = Object3D ''Scene'' False
     [Object3D ''ballL1'' True [], Object3D ''ballR1'' True [],
      Object3D ''Armature'' False [Object3D ''iresL1'' True [], Object3D ''IresR1'' True []]]"

subsection \<open>Closing the recorder (RecorderApp.tsx)\<close>

text \<open>
  \<^verbatim>\<open>p.catch(h)\<close> turns a rejection of the promise into the value of the handler;
  awaiting a promise that rejects throws out of the async function.
  \<^verbatim>\<open>handleClose\<close> awaits \<^verbatim>\<open>invoke("stop_recording").catch(() => {})\<close> when a
  recording is running and then calls \<^verbatim>\<open>onClose\<close>. The state records the commands
  invoked, the number of calls of \<^verbatim>\<open>onClose\<close>, and the console.
\<close>

definition promise_catch :: "string + 'a \<Rightarrow> (string \<Rightarrow> 'a) \<Rightarrow> string + 'a" where
  "promise_catch p h = (case p of Inl err \<Rightarrow> Inr (h err) | Inr v \<Rightarrow> Inr v)"

record recorder_app =
  isRecording :: bool
  invoked_commands :: "string list"
  onClose_calls :: nat
  recorder_console :: "string list"

definition handleClose :: "string + unit \<Rightarrow> recorder_app \<Rightarrow> (string + unit) \<times> recorder_app" where
  "handleClose stopped s =
     (if isRecording s
      then (let s1 = s\<lparr>invoked_commands := invoked_commands s @ [''stop_recording'']\<rparr>
            in case promise_catch stopped (\<lambda>_. ()) of
                 Inl err \<Rightarrow> (Inl err, s1)
               | Inr _ \<Rightarrow> (Inr (), s1\<lparr>onClose_calls := Suc (onClose_calls s1)\<rparr>))
      else (Inr (), s\<lparr>onClose_calls := Suc (onClose_calls s)\<rparr>))"

section \<open>The sensing-to-rendering pipeline\<close>

text \<open>
  IMPLEMENTATION.md describes the eye tracker component (MediaPipeEyeTracker.tsx): a
  timer of 50 ms, a capture in the format RGB8, the conversion to image data, the
  landmark model and the eye landmarks 468-473 (left) and 473-478 (right). Of the code
  of the component the sources hold the capture and conversion lines and the cleanup;
  the conversion below follows those lines. The scheduler, the gaze computation and
  the render loop are not among the sources, so their definitions follow the
  specification, sections 3 to 5, and take those constants from IMPLEMENTATION.md.
  Times are timestamps in milliseconds.
\<close>

subsection \<open>Data model\<close>

text \<open>
  The frame that \<^verbatim>\<open>invoke('capture_single_photo', ...)\<close> returns. The conversion of
  IMPLEMENTATION.md reads \<^verbatim>\<open>frame.data\<close>, \<^verbatim>\<open>frame.width\<close> and \<^verbatim>\<open>frame.height\<close>; the pixel
  format and the capture timestamp are the other fields that section 3 of the
  specification gives a CameraFrame.
\<close>

record CameraFrame =
  width :: nat
  height :: nat
  pixelFormat :: string
  data :: "u8 list"
  captureTimestamp :: nat

type_synonym point3 = "real \<times> real \<times> real"

text \<open>Modelled from the spec: LandmarkSet (section 3), an ordered sequence of 3D points,
  with the eye-region confidence that section 8 ascribes to it; missing with
  MediaPipeEyeTracker.tsx.\<close>

record LandmarkSet =
  points :: "point3 list"
  eyeConfidence :: real

text \<open>Modelled from the spec: GazeVector (section 3), one per eye; missing with
  MediaPipeEyeTracker.tsx.\<close>

record GazeVector =
  offsetX :: real
  offsetY :: real
  offsetZ :: real
  confidence :: real

record Gaze =
  leftEye :: GazeVector
  rightEye :: GazeVector

text \<open>Modelled from the spec: the state of PipelineHealth (section 3).\<close>

datatype health_state = Idle | Running | Degraded | Stopped

text \<open>Modelled from the spec: SceneState (section 3), the local offsets of the four eye
  meshes, and the number of frames drawn by the render loop.\<close>

record SceneState =
  ballL :: point3
  ballR :: point3
  irisL :: point3
  irisR :: point3
  frames_drawn :: nat

text \<open>Modelled from the spec: the tunables that sections 3 and 4 leave to configuration
  (period P, failure threshold, maximum interval, confidence threshold, hold-timeout,
  the fixed neutral reference if there is one, the clamp and the smoothing factor of
  the render loop).\<close>

record config =
  period :: nat
  failureThreshold :: nat
  maxInterval :: nat
  confidenceThreshold :: real
  holdTimeout :: nat
  fixedNeutral :: "(point3 \<times> point3) option"
  maxOffset :: real
  alpha :: real

text \<open>Modelled from the spec: PipelineHealth with its counters (section 3), the skip
  counter and the number of round trips in flight (section 4.1), the retry intervals
  of the two backoff policies, the shared last-known-GazeVector slot with the time it
  was accepted, the neutral reference (section 4.4) and the scene; the clock is the
  latest time the event loop has seen, and the last attempt is the time at which the
  latest capture cycle started.\<close>

record pipeline =
  health :: health_state
  outstanding :: nat
  skipped :: nat
  consecutiveCaptureFailures :: nat
  consecutiveInferenceFailures :: nat
  retryInterval :: nat
  inferenceRetryInterval :: nat
  gazeSlot :: "(Gaze \<times> nat) option"
  neutralRef :: "(point3 \<times> point3) option"
  scene :: SceneState
  clock :: nat
  lastAttempt :: "nat option"

subsection \<open>Frame Conversion Stage\<close>

text \<open>
  The conversion of IMPLEMENTATION.md (Camera Integration):
  \<^verbatim>\<open>new ImageData(new Uint8ClampedArray(frame.data), frame.width, frame.height)\<close>.
  The constructor of the platform takes the bytes as they are, four per pixel, and
  throws a named exception when their number does not fit: \<^verbatim>\<open>InvalidStateError\<close> when
  it is not a nonzero multiple of 4, \<^verbatim>\<open>IndexSizeError\<close> when the number of pixels is not
  a multiple of the width or the resulting height is not the one given. The pixel
  format of the frame is never read.
\<close>

datatype dom_exception = InvalidStateError | IndexSizeError

record image =
  imageWidth :: nat
  imageHeight :: nat
  rgba :: "u8 list"

definition ImageData :: "u8 list \<Rightarrow> nat \<Rightarrow> nat \<Rightarrow> dom_exception + image" where
  "ImageData bytes sw sh =
     (if length bytes = 0 \<or> length bytes mod 4 \<noteq> 0 then Inl InvalidStateError
      else if (length bytes div 4) mod sw \<noteq> 0 then Inl IndexSizeError
      else if (length bytes div 4) div sw \<noteq> sh then Inl IndexSizeError
      else Inr \<lparr>imageWidth = sw, imageHeight = sh, rgba = bytes\<rparr>)"

definition convert_frame :: "CameraFrame \<Rightarrow> dom_exception + image" where
  "convert_frame frame = ImageData (data frame) (width frame) (height frame)"

subsection \<open>Gaze Computation\<close>

text \<open>Modelled from the spec: the centroid of an eye region and the fixed index ranges
  of section 4.4, which IMPLEMENTATION.md gives as 468-473 (left) and 473-478 (right).\<close>

definition centroid :: "point3 list \<Rightarrow> point3" where
  "centroid ps =
     (let n = real (length ps)
      in (sum_list (map fst ps) / n, sum_list (map (fst \<circ> snd) ps) / n,
          sum_list (map (snd \<circ> snd) ps) / n))"

definition left_eye_points :: "LandmarkSet \<Rightarrow> point3 list" where
  "left_eye_points lm = take (473 - 468) (drop 468 (points lm))"

definition right_eye_points :: "LandmarkSet \<Rightarrow> point3 list" where
  "right_eye_points lm = take (478 - 473) (drop 473 (points lm))"

definition eye_centroids :: "LandmarkSet \<Rightarrow> point3 \<times> point3" where
  "eye_centroids lm = (centroid (left_eye_points lm), centroid (right_eye_points lm))"

definition offset_from :: "point3 \<Rightarrow> point3 \<Rightarrow> real \<Rightarrow> GazeVector" where
  "offset_from ref c conf =
     \<lparr>offsetX = fst c - fst ref, offsetY = fst (snd c) - fst (snd ref),
      offsetZ = snd (snd c) - snd (snd ref), confidence = conf\<rparr>"

text \<open>Modelled from the spec: Gaze Computation (section 4.4): the centroids of the fixed
  index ranges of the two eye regions, as offsets from the neutral reference; a set
  that does not reach the last eye landmark is partial and gives no vector.\<close>

definition gaze_computation :: "point3 \<times> point3 \<Rightarrow> LandmarkSet \<Rightarrow> Gaze option" where
  "gaze_computation ref lm =
     (if length (points lm) < 478 then None
      else Some \<lparr>leftEye = offset_from (fst ref) (fst (eye_centroids lm)) (eyeConfidence lm),
                 rightEye = offset_from (snd ref) (snd (eye_centroids lm)) (eyeConfidence lm)\<rparr>)"

text \<open>Modelled from the spec: the call of Gaze Computation in a pipeline state (section
  4.4): the neutral reference is the calibrated one, or, before any valid frame, the
  centroids of this landmark set.\<close>

definition gaze_of :: "pipeline \<Rightarrow> LandmarkSet \<Rightarrow> Gaze option" where
  "gaze_of s lm =
     gaze_computation (case neutralRef s of Some r \<Rightarrow> r | None \<Rightarrow> eye_centroids lm) lm"

subsection \<open>Capture Scheduler\<close>

text \<open>Modelled from the spec: the results of the camera service and of the landmark
  inference engine at their boundary (section 6).\<close>

datatype camera_result = CaptureError string | Captured CameraFrame

datatype inference_result = InferenceError string | NoFaceDetected | Landmarks LandmarkSet

text \<open>Modelled from the spec: the backoff policy of section 4.1, step 2: once the count of
  consecutive failures exceeds the threshold the retry interval is doubled, capped at
  the maximum interval.\<close>

definition backoff :: "config \<Rightarrow> nat \<Rightarrow> nat \<Rightarrow> nat" where
  "backoff cfg failures interval =
     (if failureThreshold cfg < failures then min (maxInterval cfg) (2 * interval) else interval)"

text \<open>Modelled from the spec: section 4.1, step 2, a failed capture.\<close>

definition capture_failed :: "config \<Rightarrow> pipeline \<Rightarrow> pipeline" where
  "capture_failed cfg s =
     (let n = Suc (consecutiveCaptureFailures s)
      in s\<lparr>consecutiveCaptureFailures := n,
            retryInterval := backoff cfg n (retryInterval s),
            health := (if failureThreshold cfg < n then Degraded else health s)\<rparr>)"

text \<open>Modelled from the spec: section 4.1, step 3, and the backoff invariant of section 8:
  a successful capture resets the count and the interval.\<close>

definition capture_succeeded :: "config \<Rightarrow> pipeline \<Rightarrow> pipeline" where
  "capture_succeeded cfg s = s\<lparr>consecutiveCaptureFailures := 0, retryInterval := period cfg\<rparr>"

text \<open>Modelled from the spec: section 4.1, step 4: the slot is not written, and the
  inference failures follow the same backoff policy on their own count and interval.\<close>

definition inference_failed :: "config \<Rightarrow> pipeline \<Rightarrow> pipeline" where
  "inference_failed cfg s =
     (let n = Suc (consecutiveInferenceFailures s)
      in s\<lparr>consecutiveInferenceFailures := n,
            inferenceRetryInterval := backoff cfg n (inferenceRetryInterval s),
            health := (if failureThreshold cfg < n then Degraded else health s)\<rparr>)"

text \<open>Modelled from the spec: section 4.1, step 5: a good result replaces the slot.\<close>

definition gaze_accepted :: "config \<Rightarrow> Gaze \<Rightarrow> nat \<Rightarrow> pipeline \<Rightarrow> pipeline" where
  "gaze_accepted cfg g now s =
     s\<lparr>gazeSlot := Some (g, now), consecutiveInferenceFailures := 0,
       inferenceRetryInterval := period cfg\<rparr>"

text \<open>Modelled from the spec: section 4.1, steps 4 and 5, on a landmark set: a partial set
  or one whose eye-region confidence is below the threshold is an inference failure;
  the first valid set calibrates the neutral reference.\<close>

definition apply_landmarks :: "config \<Rightarrow> LandmarkSet \<Rightarrow> nat \<Rightarrow> pipeline \<Rightarrow> pipeline" where
  "apply_landmarks cfg lm now s =
     (case gaze_of s lm of
        None \<Rightarrow> inference_failed cfg s
      | Some g \<Rightarrow>
          if eyeConfidence lm < confidenceThreshold cfg then inference_failed cfg s
          else gaze_accepted cfg g now
                 (s\<lparr>neutralRef := Some (case neutralRef s of Some r \<Rightarrow> r | None \<Rightarrow> eye_centroids lm)\<rparr>))"

text \<open>Modelled from the spec: the retry period of section 4.1, step 2: the next capture
  is due once the retry interval has elapsed since the latest attempt.\<close>

definition capture_due :: "pipeline \<Rightarrow> bool" where
  "capture_due s =
     (case lastAttempt s of None \<Rightarrow> True | Some t \<Rightarrow> t + retryInterval s \<le> clock s)"

text \<open>Modelled from the spec: section 4.1, steps 1 and 2 and the edge case: a tick of the
  scheduler's timer. A scheduler that is not started or is stopped performs no tick; a
  tick that finds a cycle outstanding is skipped and counted; a tick before the retry
  interval has elapsed starts nothing (no busy retry); otherwise a capture cycle
  starts.\<close>

definition tick :: "pipeline \<Rightarrow> pipeline" where
  "tick s =
     (if health s = Idle \<or> health s = Stopped then s
      else if 0 < outstanding s then s\<lparr>skipped := Suc (skipped s)\<rparr>
      else if \<not> capture_due s then s
      else s\<lparr>outstanding := Suc (outstanding s), lastAttempt := Some (clock s)\<rparr>)"

text \<open>Modelled from the spec: section 4.1, steps 2 to 5, and section 5: the end of the
  round trip in flight, with the camera's result and the inference engine. A result
  that arrives after the stop is discarded.\<close>

definition complete_cycle ::
  "config \<Rightarrow> camera_result \<Rightarrow> (image \<Rightarrow> inference_result) \<Rightarrow> nat \<Rightarrow> pipeline \<Rightarrow> pipeline" where
  "complete_cycle cfg cam infer now s =
     (if outstanding s = 0 then s
      else let s1 = s\<lparr>outstanding := outstanding s - 1\<rparr>
           in if health s = Stopped then s1
              else (case cam of
                      CaptureError _ \<Rightarrow> capture_failed cfg s1
                    | Captured f \<Rightarrow>
                        (case convert_frame f of
                           Inl _ \<Rightarrow> capture_failed cfg s1
                         | Inr img \<Rightarrow>
                             (let s2 = capture_succeeded cfg s1
                              in case infer img of
                                   InferenceError _ \<Rightarrow> inference_failed cfg s2
                                 | NoFaceDetected \<Rightarrow> s2
                                 | Landmarks lm \<Rightarrow> apply_landmarks cfg lm now s2))))"

subsection \<open>Render loop\<close>

text \<open>Modelled from the spec: the neutral gaze to which the eyes re-center (section 3).\<close>

definition neutral_vector :: GazeVector where
  "neutral_vector = \<lparr>offsetX = 0, offsetY = 0, offsetZ = 0, confidence = 0\<rparr>"

definition neutral_gaze :: Gaze where
  "neutral_gaze = \<lparr>leftEye = neutral_vector, rightEye = neutral_vector\<rparr>"

text \<open>Modelled from the spec: the hold policy of section 3, read by the render loop: the
  last accepted vector until the hold-timeout has elapsed since its acceptance, the
  neutral gaze after that or when nothing was accepted yet.\<close>

definition current_gaze :: "config \<Rightarrow> nat \<Rightarrow> pipeline \<Rightarrow> Gaze" where
  "current_gaze cfg now s =
     (case gazeSlot s of
        None \<Rightarrow> neutral_gaze
      | Some (g, t) \<Rightarrow> if holdTimeout cfg < now - t then neutral_gaze else g)"

text \<open>Modelled from the spec: the clamp and the exponential moving average of the render
  loop (section 4.5).\<close>

definition clamp_offset :: "config \<Rightarrow> real \<Rightarrow> real" where
  "clamp_offset cfg x = max (- maxOffset cfg) (min (maxOffset cfg) x)"

definition smooth :: "config \<Rightarrow> point3 \<Rightarrow> GazeVector \<Rightarrow> point3" where
  "smooth cfg old g =
     (fst old + alpha cfg * (clamp_offset cfg (offsetX g) - fst old),
      fst (snd old) + alpha cfg * (clamp_offset cfg (offsetY g) - fst (snd old)),
      snd (snd old) + alpha cfg * (clamp_offset cfg (offsetZ g) - snd (snd old)))"

text \<open>Modelled from the spec: a tick of the render loop (section 4.5): read the slot,
  move the four eye meshes by the clamped, smoothed offsets, draw.\<close>

definition render_tick :: "config \<Rightarrow> nat \<Rightarrow> pipeline \<Rightarrow> pipeline" where
  "render_tick cfg now s =
     (let g = current_gaze cfg now s; sc = scene s
      in s\<lparr>scene := sc\<lparr>ballL := smooth cfg (ballL sc) (leftEye g),
                         irisL := smooth cfg (irisL sc) (leftEye g),
                         ballR := smooth cfg (ballR sc) (rightEye g),
                         irisR := smooth cfg (irisR sc) (rightEye g),
                         frames_drawn := Suc (frames_drawn sc)\<rparr>\<rparr>)"

subsection \<open>Runs of the pipeline\<close>

text \<open>Modelled from the spec: the events of the cooperative event loop of section 5 (the
  explicit start and stop, a tick of the scheduler's timer, the end of a round trip, a
  tick of the render loop) and a run of the pipeline over a sequence of them.\<close>

datatype event =
    Start
  | Stop
  | Tick
  | Complete camera_result "image \<Rightarrow> inference_result" nat
  | Render nat

text \<open>Modelled from the spec: the time of section 5: an event that carries a timestamp
  moves the clock of the event loop forward to it.\<close>

definition observe :: "nat \<Rightarrow> pipeline \<Rightarrow> pipeline" where
  "observe now s = s\<lparr>clock := max (clock s) now\<rparr>"

text \<open>Modelled from the spec: the explicit start and stop of section 4.1.\<close>

definition start :: "pipeline \<Rightarrow> pipeline" where
  "start s = (if health s = Idle \<or> health s = Stopped then s\<lparr>health := Running\<rparr> else s)"

definition stop :: "pipeline \<Rightarrow> pipeline" where
  "stop s = s\<lparr>health := Stopped\<rparr>"

fun step :: "config \<Rightarrow> event \<Rightarrow> pipeline \<Rightarrow> pipeline" where
  "step cfg Start s = start s"
| "step cfg Stop s = stop s"
| "step cfg Tick s = tick s"
| "step cfg (Complete cam infer now) s = complete_cycle cfg cam infer now (observe now s)"
| "step cfg (Render now) s = render_tick cfg now (observe now s)"

fun run :: "config \<Rightarrow> event list \<Rightarrow> pipeline \<Rightarrow> pipeline" where
  "run cfg [] s = s"
| "run cfg (ev # evs) s = run cfg evs (step cfg ev s)"

definition origin :: point3 where
  "origin = (0, 0, 0)"

text \<open>Modelled from the spec: the pipeline when the screen is mounted: idle, nothing in
  flight, no capture attempted, the intervals at the base period, an empty slot, the
  eye meshes at rest.\<close>

definition init :: "config \<Rightarrow> pipeline" where
  "init cfg =
     \<lparr>health = Idle, outstanding = 0, skipped = 0, consecutiveCaptureFailures = 0,
      consecutiveInferenceFailures = 0, retryInterval = period cfg,
      inferenceRetryInterval = period cfg, gazeSlot = None, neutralRef = fixedNeutral cfg,
      scene = \<lparr>ballL = origin, ballR = origin, irisL = origin, irisR = origin, frames_drawn = 0\<rparr>,
      clock = 0, lastAttempt = None\<rparr>"

text \<open>A configuration and inputs for concrete runs.\<close>

definition demo_config :: config where
  "demo_config = \<lparr>period = 50, failureThreshold = 2, maxInterval = 300,
     confidenceThreshold = 1 / 2, holdTimeout = 1000, fixedNeutral = Some (origin, origin),
     maxOffset = 1, alpha = 1 / 2\<rparr>"

definition demo_frame :: "string \<Rightarrow> CameraFrame" where
  "demo_frame fmt = \<lparr>width = 1, height = 1, pixelFormat = fmt, data = [1, 2, 3, 255],
     captureTimestamp = 0\<rparr>"

definition demo_landmarks :: "real \<Rightarrow> LandmarkSet" where
  "demo_landmarks c = \<lparr>points = replicate 468 origin @ replicate 5 (1 / 10, 0, 0)
     @ replicate 5 (1 / 5, 0, 0), eyeConfidence = c\<rparr>"

definition demo_busy :: "nat \<Rightarrow> event" where
  "demo_busy t = Complete (CaptureError ''busy'') (\<lambda>_. NoFaceDetected) t"

definition demo_seen :: "real \<Rightarrow> nat \<Rightarrow> event" where
  "demo_seen c t = Complete (Captured (demo_frame ''RGB8'')) (\<lambda>_. Landmarks (demo_landmarks c)) t"


definition demo_gaze :: Gaze where
  "demo_gaze = \<lparr>leftEye = \<lparr>offsetX = 1 / 10, offsetY = 0, offsetZ = 0, confidence = 9 / 10\<rparr>,
                 rightEye = \<lparr>offsetX = 1 / 5, offsetY = 0, offsetZ = 0, confidence = 9 / 10\<rparr>\<rparr>"

definition demo_recorder :: recorder_app where
  "demo_recorder = \<lparr>isRecording = True, invoked_commands = [], onClose_calls = 0, recorder_console = []\<rparr>"

definition demo_os :: os where
  "demo_os = \<lparr>spawn_result = (\<lambda>c. Inr \<lparr>status = 1, stdout = [], stderr = ''no device''\<rparr>), invoked = []\<rparr>"

section \<open>Brightness: the requested level\<close>

lemma clamp_bounds: "5 \<le> unat (clamp level 5 100) \<and> unat (clamp level 5 100) \<le> 100"
  by (auto simp: clamp_def word_less_nat_alt not_less)

lemma digit_cases:
  "d < 10 \<Longrightarrow> d = 0 \<or> d = 1 \<or> d = 2 \<or> d = 3 \<or> d = 4 \<or> d = 5 \<or> d = 6 \<or> d = 7 \<or> d = 8 \<or> d = (9::nat)"
  by arith

lemma digit_value_digit_char: "d < 10 \<Longrightarrow> digit_value (digit_char d) = d"
  using digit_cases [of d] by (auto simp: digit_value_def digit_char_def)

lemma digit_char_is_digit: "d < 10 \<Longrightarrow> digit_char d \<in> set ''0123456789''"
  using digit_cases [of d] by (auto simp: digit_char_def)

lemma digit_char_zero: "d < 10 \<Longrightarrow> digit_char d = CHR ''0'' \<Longrightarrow> d = 0"
  using digit_cases [of d] by (auto simp: digit_char_def)

lemma decimal_value_snoc: "decimal_value (cs @ [c]) = 10 * decimal_value cs + digit_value c"
  by (simp add: decimal_value_def)

lemma decimal_value_to_string: "decimal_value (to_string n) = n"
proof (induction n rule: to_string.induct)
  case (1 n)
  show ?case
  proof (cases "n < 10")
    case True
    then show ?thesis
      by (simp add: to_string.simps [of n] decimal_value_def digit_value_digit_char)
  next
    case False
    with "1" have "decimal_value (to_string (n div 10)) = n div 10" by simp
    with False show ?thesis
      by (simp add: to_string.simps [of n] decimal_value_snoc digit_value_digit_char)
  qed
qed

lemma to_string_digits: "set (to_string n) \<subseteq> set ''0123456789''"
proof (induction n rule: to_string.induct)
  case (1 n)
  show ?case
  proof (cases "n < 10")
    case True
    then show ?thesis
      using digit_char_is_digit [of n] by (simp add: to_string.simps [of n])
  next
    case False
    with "1" have "set (to_string (n div 10)) \<subseteq> set ''0123456789''" by simp
    with False show ?thesis
      using digit_char_is_digit [of "n mod 10"] by (simp add: to_string.simps [of n])
  qed
qed

lemma to_string_not_empty: "to_string n \<noteq> []"
  by (simp add: to_string.simps [of n])

lemma to_string_no_leading_zero: "0 < n \<Longrightarrow> hd (to_string n) \<noteq> CHR ''0''"
proof (induction n rule: to_string.induct)
  case (1 n)
  show ?case
  proof (cases "n < 10")
    case True
    with "1.prems" show ?thesis
      using digit_char_zero [of n] by (auto simp: to_string.simps [of n])
  next
    case False
    then have "0 < n div 10" by simp
    with "1.IH" False have "hd (to_string (n div 10)) \<noteq> CHR ''0''" by simp
    with False show ?thesis
      by (simp add: to_string.simps [of n] to_string_not_empty)
  qed
qed

text \<open>
  C8. For every level in 0..255, \<open>set_brightness\<close> runs exactly one command,
  \<^verbatim>\<open>brightnessctl set <n>%\<close>, where \<open>n\<close> is \<^verbatim>\<open>level.clamp(5, 100)\<close>: the argument is a
  string of decimal digits without a leading zero whose value is the clamped level. The
  requested value lies between 5 and 100 inclusive, and whenever running the command
  succeeds the result is \<^verbatim>\<open>Ok(())\<close>.
\<close>

theorem set_brightness_clamped:
  "snd (set_brightness level w) =
     w\<lparr>invoked := invoked w @ [(''brightnessctl'', [''set'', to_string (unat (clamp level 5 100)) @ ''%''])]\<rparr>
   \<and> decimal_value (to_string (unat (clamp level 5 100))) = unat (clamp level 5 100)
   \<and> set (to_string (unat (clamp level 5 100))) \<subseteq> set ''0123456789''
   \<and> hd (to_string (unat (clamp level 5 100))) \<noteq> CHR ''0''
   \<and> 5 \<le> unat (clamp level 5 100) \<and> unat (clamp level 5 100) \<le> 100
   \<and> clamp level 5 100 = (if level < 5 then 5 else if 100 < level then 100 else level)
   \<and> (\<forall>out. spawn_result w (''brightnessctl'', [''set'', to_string (unat (clamp level 5 100)) @ ''%'']) = Inr out
        \<longrightarrow> fst (set_brightness level w) = Inr ())"
proof -
  have b: "5 \<le> unat (clamp level 5 100)" "unat (clamp level 5 100) \<le> 100"
    using clamp_bounds [of level] by simp_all
  then have "hd (to_string (unat (clamp level 5 100))) \<noteq> CHR ''0''"
    by (intro to_string_no_leading_zero) simp
  moreover have "snd (set_brightness level w) =
     w\<lparr>invoked := invoked w @ [(''brightnessctl'', [''set'', to_string (unat (clamp level 5 100)) @ ''%''])]\<rparr>"
    by (simp add: set_brightness_def command_output_def Let_def split: sum.splits)
  moreover have "\<forall>out. spawn_result w (''brightnessctl'', [''set'', to_string (unat (clamp level 5 100)) @ ''%'']) = Inr out
        \<longrightarrow> fst (set_brightness level w) = Inr ()"
    by (simp add: set_brightness_def command_output_def Let_def)
  moreover have "clamp level 5 100 = (if level < 5 then 5 else if 100 < level then 100 else level)"
    by (simp add: clamp_def)
  ultimately show ?thesis
    using b decimal_value_to_string to_string_digits by blast
qed

text \<open>
  Levels 0, 50, 100 and 255 ask for 5%, 50%, 100% and 100%, and a \<^verbatim>\<open>brightnessctl\<close>
  that ran and exited with status 1 still gives \<^verbatim>\<open>Ok(())\<close>.
\<close>

theorem set_brightness_clamped_witness:
  "spawn_result demo_os (''brightnessctl'', [''set'', ''5%''])
     = Inr \<lparr>status = 1, stdout = [], stderr = ''no device''\<rparr>
   \<and> set_brightness 0 demo_os
     = (Inr (), demo_os\<lparr>invoked := [(''brightnessctl'', [''set'', ''5%''])]\<rparr>)
   \<and> set_brightness 50 demo_os
     = (Inr (), demo_os\<lparr>invoked := [(''brightnessctl'', [''set'', ''50%''])]\<rparr>)
   \<and> set_brightness 100 demo_os
     = (Inr (), demo_os\<lparr>invoked := [(''brightnessctl'', [''set'', ''100%''])]\<rparr>)
   \<and> set_brightness 255 demo_os
     = (Inr (), demo_os\<lparr>invoked := [(''brightnessctl'', [''set'', ''100%''])]\<rparr>)
   \<and> decimal_value ''50'' = 50"
  using set_brightness_clamped [of 0 demo_os] set_brightness_clamped [of 50 demo_os]
    set_brightness_clamped [of 100 demo_os] set_brightness_clamped [of 255 demo_os]
  by (simp add: clamp_def to_string.simps digit_char_def prod_eq_iff demo_os_def
      decimal_value_def digit_value_def)

section \<open>Media: deletion stays inside the media directory\<close>

lemmas demo_fs_defs = delete_media_def demo_io_def demo_fs_def demo_media_def demo_home_def
  MEDIA_BASE_def demo_canonicalize_def demo_remove_file_def

text \<open>
  C9. \<open>delete_media\<close> removes a file only when the canonical form of its path starts with
  the canonical form of the media base directory \<^verbatim>\<open>~/.config/honeybee/media\<close>: whenever it
  returns \<^verbatim>\<open>Ok\<close> or changes the file system, both paths were canonicalized, the base
  is a prefix of the path, and the change is that of \<^verbatim>\<open>remove_file\<close>. For every path that
  cannot be canonicalized (it does not exist) or whose canonical form lies outside the
  base, it returns an error and the file system is unchanged.
\<close>

theorem delete_media_confined:
  "(fst (delete_media io file_path fs) = Inr () \<or> snd (delete_media io file_path fs) \<noteq> fs
      \<longrightarrow> (\<exists>home cp cb. home_dir io = Some home
             \<and> canonicalize io fs file_path = Inr cp
             \<and> canonicalize io fs (home @ MEDIA_BASE) = Inr cb
             \<and> prefix cb cp
             \<and> remove_file io fs file_path = Inr (snd (delete_media io file_path fs))))
   \<and> ((\<exists>err. canonicalize io fs file_path = Inl err)
       \<or> (\<exists>home cp cb. home_dir io = Some home \<and> canonicalize io fs file_path = Inr cp
             \<and> canonicalize io fs (home @ MEDIA_BASE) = Inr cb \<and> \<not> prefix cb cp)
      \<longrightarrow> (\<exists>msg. fst (delete_media io file_path fs) = Inl msg) \<and> snd (delete_media io file_path fs) = fs)"
  by (auto simp: delete_media_def Let_def split: option.splits sum.splits)

text \<open>
  A recording inside the media directory is removed; a path that climbs out with
  \<^verbatim>\<open>..\<close>, a symbolic link to \<^verbatim>\<open>/etc/passwd\<close> and a file that does not exist are refused
  and nothing is removed.
\<close>

theorem delete_media_confined_witness:
  "delete_media demo_io (demo_media @ [''audio'', ''recording_1.webm'']) demo_fs
     = (Inr (), [demo_home @ [''.config'', ''secret''], [''etc'', ''passwd'']])
   \<and> canonicalize demo_io demo_fs (demo_media @ [''audio'', ''..'', ''..'', ''..'', ''secret''])
     = Inr (demo_home @ [''.config'', ''secret''])
   \<and> \<not> prefix demo_media (demo_home @ [''.config'', ''secret''])
   \<and> delete_media demo_io (demo_media @ [''audio'', ''..'', ''..'', ''..'', ''secret'']) demo_fs
     = (Inl ''Access denied: path outside media directory'', demo_fs)
   \<and> delete_media demo_io (demo_media @ [''link'']) demo_fs
     = (Inl ''Access denied: path outside media directory'', demo_fs)
   \<and> canonicalize demo_io demo_fs (demo_media @ [''audio'', ''gone.webm'']) = Inl ''No such file or directory''
   \<and> delete_media demo_io (demo_media @ [''audio'', ''gone.webm'']) demo_fs = (Inl ''File not found'', demo_fs)"
  using delete_media_confined [of demo_io "demo_media @ [''audio'', ''recording_1.webm'']" demo_fs]
    delete_media_confined [of demo_io "demo_media @ [''audio'', ''..'', ''..'', ''..'', ''secret'']" demo_fs]
    delete_media_confined [of demo_io "demo_media @ [''audio'', ''gone.webm'']" demo_fs]
  by (simp add: demo_fs_defs)

section \<open>MusicApp: deleting a recording\<close>

lemmas music_defs = deleteRecording_def deleteRecording_resume_def deleteRecording_finally_def
  stop_playback_def playTrack_def

text \<open>
  What the part of \<^verbatim>\<open>deleteRecording\<close> after the \<^verbatim>\<open>await\<close> does, in whatever state it
  resumes and whatever track its closure holds. After a successful delete of \<open>p\<close> the
  list is the list of that moment without the entries whose path is \<open>p\<close>; playback is
  stopped and the current track cleared exactly when the track of the closure has path
  \<open>p\<close>, and otherwise the audio element, the current track and \<open>isPlaying\<close> are left as
  they are. After a failed delete the list is unchanged.
\<close>

lemma deleteRecording_resume_effect:
  "recordings (deleteRecording_resume captured p (Inr ()) s) = filter (\<lambda>r. path r \<noteq> p) (recordings s)
   \<and> (map_option path captured = Some p \<longrightarrow>
        currentTrack (deleteRecording_resume captured p (Inr ()) s) = None
        \<and> \<not> isPlaying (deleteRecording_resume captured p (Inr ()) s)
        \<and> audioRef (deleteRecording_resume captured p (Inr ()) s) = None
        \<and> paused_audio (deleteRecording_resume captured p (Inr ()) s)
            = paused_audio s @ (case audioRef s of Some a \<Rightarrow> [a] | None \<Rightarrow> []))
   \<and> (map_option path captured \<noteq> Some p \<longrightarrow>
        currentTrack (deleteRecording_resume captured p (Inr ()) s) = currentTrack s
        \<and> isPlaying (deleteRecording_resume captured p (Inr ()) s) = isPlaying s
        \<and> audioRef (deleteRecording_resume captured p (Inr ()) s) = audioRef s
        \<and> paused_audio (deleteRecording_resume captured p (Inr ()) s) = paused_audio s)
   \<and> recordings (deleteRecording_resume captured p (Inl err) s) = recordings s"
  by (auto simp: music_defs Let_def split: option.splits)

text \<open>
  C10. The list part and the failure part of the claim hold of every run (see above),
  and so does the playback part when the current track does not change while the
  backend call is awaited. The code misses the other case: with nothing playing, the
  delete of \<^verbatim>\<open>/media/b.wav\<close> is started (its closure holds no current track); while the
  backend call is awaited that recording is played; the delete then succeeds. The
  recording is removed from the list, yet it stays the current track and keeps
  playing: nothing was paused.
\<close>

theorem deleteRecording_stale_closure:
  "currentTrack demo_idle_music = None
   \<and> currentTrack (playTrack (demo_rec ''b.wav'' 2) (Played ''data:audio/wav;base64,AAAA'')
        (demo_idle_music\<lparr>deleting := True\<rparr>)) = Some (demo_rec ''b.wav'' 2)
   \<and> path (demo_rec ''b.wav'' 2) = ''/media/b.wav''
   \<and> deleteRecording_resume (currentTrack demo_idle_music) ''/media/b.wav'' (Inr ())
        (playTrack (demo_rec ''b.wav'' 2) (Played ''data:audio/wav;base64,AAAA'')
           (demo_idle_music\<lparr>deleting := True\<rparr>))
     = \<lparr>recordings = [demo_rec ''a.wav'' 1, demo_rec ''c.wav'' 3],
        loading = False, currentTrack = Some (demo_rec ''b.wav'' 2), isPlaying = True,
        confirmDelete = None, deleting = False,
        audioRef = Some ''data:audio/wav;base64,AAAA'', paused_audio = [], console = []\<rparr>"
  by (simp add: music_defs demo_idle_music_def demo_rec_def)

section \<open>Teardown\<close>

lemma concat_map_concat:
  "concat (map f (concat xss)) = concat (map (\<lambda>xs. concat (map f xs)) xss)"
  by (induction xss) simp_all

lemma traverse_objects: "traverse f obj = concat (map f (objects obj))"
  by (induction obj) (simp add: concat_map_concat comp_def cong: map_cong)

lemma concat_dispose_mesh:
  "concat (map dispose_mesh os) =
   concat (map (\<lambda>m. [GeometryDispose (obj_name m), MaterialDispose (obj_name m)]) (filter isMesh os))"
  by (induction os) (simp_all add: dispose_mesh_def)

lemma pending_during_release:
  "pending_during pending settled (a # b # t) ! Suc 0 = (b, pending)"
  by (simp add: pending_during_def numeral_2_eq_2)

lemma fst_pending_during: "map fst (pending_during pending settled t) = t"
  by (cases t; cases "tl t") (auto simp: pending_during_def numeral_2_eq_2 map_fst_zip)

text \<open>
  C1, as stated, fails: in the cleanup of a scene with the four eye meshes the MediaPipe
  session is closed third, before the renderer and every mesh are disposed, so the
  session is not closed last and no GPU disposal precedes its closing. And with an
  inference call in flight that does not settle while the camera release is awaited,
  the camera is released and every GPU resource disposed while the call is still in
  flight.
\<close>

theorem cleanup_session_not_last:
  "snd (cleanup ''0'' (Inr ()) demo_scene) =
     [ClearInterval, InvokeReleaseCamera ''0'', HolisticClose, RendererDispose,
      GeometryDispose ''ballL1'', MaterialDispose ''ballL1'',
      GeometryDispose ''ballR1'', MaterialDispose ''ballR1'',
      GeometryDispose ''iresL1'', MaterialDispose ''iresL1'',
      GeometryDispose ''IresR1'', MaterialDispose ''IresR1'']
   \<and> \<not> occurs_before RendererDispose HolisticClose (snd (cleanup ''0'' (Inr ()) demo_scene))
   \<and> \<not> occurs_before (GeometryDispose ''ballL1'') HolisticClose (snd (cleanup ''0'' (Inr ()) demo_scene))
   \<and> last (snd (cleanup ''0'' (Inr ()) demo_scene)) \<noteq> HolisticClose
   \<and> pending_during True False (snd (cleanup ''0'' (Inr ()) demo_scene)) =
       [(ClearInterval, True), (InvokeReleaseCamera ''0'', True), (HolisticClose, True),
        (RendererDispose, True),
        (GeometryDispose ''ballL1'', True), (MaterialDispose ''ballL1'', True),
        (GeometryDispose ''ballR1'', True), (MaterialDispose ''ballR1'', True),
        (GeometryDispose ''iresL1'', True), (MaterialDispose ''iresL1'', True),
        (GeometryDispose ''IresR1'', True), (MaterialDispose ''IresR1'', True)]"
  by (simp add: cleanup_def demo_scene_def dispose_mesh_def occurs_before_def
      pending_during_def numeral_2_eq_2)

text \<open>
  C1, amended. When the camera release succeeds, the trace of the cleanup is exactly:
  the capture timer cleared, the camera released, the MediaPipe session closed, the
  renderer disposed, and then, for every mesh of the scene in the order of the
  traversal, its geometry and its material disposed; nothing else. No step awaits or
  cancels an inference call: the camera release is invoked with the call in flight
  whenever one is in flight at the start.
\<close>

theorem cleanup_order:
  "cleanup deviceId (Inr ()) obj =
     (Inr (), [ClearInterval, InvokeReleaseCamera deviceId, HolisticClose, RendererDispose]
        @ concat (map (\<lambda>m. [GeometryDispose (obj_name m), MaterialDispose (obj_name m)])
            (filter isMesh (objects obj))))
   \<and> map fst (pending_during pending settled (snd (cleanup deviceId (Inr ()) obj)))
       = snd (cleanup deviceId (Inr ()) obj)
   \<and> pending_during pending settled (snd (cleanup deviceId (Inr ()) obj)) ! 1
       = (InvokeReleaseCamera deviceId, pending)"
  by (simp add: cleanup_def Let_def traverse_objects concat_dispose_mesh
      pending_during_release fst_pending_during)

theorem cleanup_order_witness:
  "objects (Object3D ''Scene'' False [Object3D ''ballL1'' True []])
     = [Object3D ''Scene'' False [Object3D ''ballL1'' True []], Object3D ''ballL1'' True []]
   \<and> cleanup ''0'' (Inr ()) (Object3D ''Scene'' False [Object3D ''ballL1'' True []]) =
     (Inr (), [ClearInterval, InvokeReleaseCamera ''0'', HolisticClose, RendererDispose,
               GeometryDispose ''ballL1'', MaterialDispose ''ballL1''])
   \<and> pending_during True True
        (snd (cleanup ''0'' (Inr ()) (Object3D ''Scene'' False [Object3D ''ballL1'' True []]))) ! 1
       = (InvokeReleaseCamera ''0'', True)"
  using cleanup_order [of "''0''" "Object3D ''Scene'' False [Object3D ''ballL1'' True []]" True True]
  by (simp add: pending_during_release)

text \<open>
  C7, as stated, fails: when \<^verbatim>\<open>stop_recording\<close> is rejected while the recorder closes,
  nothing is written to the console; and when \<^verbatim>\<open>release_camera\<close> is rejected in the
  cleanup of the eye tracker, the rejection is the outcome of the cleanup and neither
  the session is closed nor anything disposed.
\<close>

theorem teardown_error_counterexample:
  "recorder_console (snd (handleClose (Inl ''not recording'') demo_recorder)) = []
   \<and> fst (cleanup ''0'' (Inl ''camera not found'') demo_scene) = Inl ''camera not found''
   \<and> snd (cleanup ''0'' (Inl ''camera not found'') demo_scene) = [ClearInterval, InvokeReleaseCamera ''0'']
   \<and> HolisticClose \<notin> set (snd (cleanup ''0'' (Inl ''camera not found'') demo_scene))
   \<and> RendererDispose \<notin> set (snd (cleanup ''0'' (Inl ''camera not found'') demo_scene))"
  by (simp add: handleClose_def promise_catch_def cleanup_def demo_recorder_def)

text \<open>
  C7, amended. Whatever the outcome of \<^verbatim>\<open>stop_recording\<close>, \<open>handleClose\<close> of the recorder
  completes without an error, calls \<^verbatim>\<open>onClose\<close> exactly once and writes nothing to the
  console: an error of the release step is swallowed, not logged, and never re-raised.
\<close>

theorem handleClose_swallows:
  "fst (handleClose stopped s) = Inr ()
   \<and> onClose_calls (snd (handleClose stopped s)) = Suc (onClose_calls s)
   \<and> recorder_console (snd (handleClose stopped s)) = recorder_console s
   \<and> isRecording (snd (handleClose stopped s)) = isRecording s
   \<and> invoked_commands (snd (handleClose stopped s)) =
       invoked_commands s @ (if isRecording s then [''stop_recording''] else [])"
  by (auto simp: handleClose_def promise_catch_def Let_def split: sum.splits)

section \<open>Capture Scheduler: one round trip at a time\<close>

lemmas pipeline_defs = init_def start_def stop_def tick_def capture_due_def observe_def
  complete_cycle_def capture_failed_def capture_succeeded_def inference_failed_def
  gaze_accepted_def apply_landmarks_def backoff_def convert_frame_def ImageData_def
  render_tick_def current_gaze_def

lemmas gaze_defs = gaze_of_def gaze_computation_def eye_centroids_def left_eye_points_def
  right_eye_points_def centroid_def offset_from_def

lemmas demo_defs = demo_config_def demo_frame_def demo_landmarks_def demo_busy_def demo_seen_def
  demo_gaze_def origin_def

lemma outstanding_outcomes [simp]:
  "outstanding (capture_failed cfg s) = outstanding s"
  "outstanding (capture_succeeded cfg s) = outstanding s"
  "outstanding (inference_failed cfg s) = outstanding s"
  "outstanding (gaze_accepted cfg g now s) = outstanding s"
  by (simp_all add: capture_failed_def capture_succeeded_def inference_failed_def
      gaze_accepted_def Let_def)

lemma outstanding_apply_landmarks [simp]:
  "outstanding (apply_landmarks cfg lm now s) = outstanding s"
  by (simp add: apply_landmarks_def split: option.splits)

lemma outstanding_complete_cycle:
  "outstanding (complete_cycle cfg cam infer now s) = outstanding s - 1"
  by (simp add: complete_cycle_def Let_def
      split: camera_result.splits sum.splits inference_result.splits)

lemma outstanding_step: "outstanding s \<le> 1 \<Longrightarrow> outstanding (step cfg ev s) \<le> 1"
  by (cases ev)
    (auto simp: start_def stop_def tick_def render_tick_def observe_def Let_def
      outstanding_complete_cycle)

lemma outstanding_run: "outstanding s \<le> 1 \<Longrightarrow> outstanding (run cfg evs s) \<le> 1"
proof (induction evs arbitrary: s)
  case Nil
  then show ?case by simp
next
  case (Cons ev evs)
  from Cons.prems have "outstanding (step cfg ev s) \<le> 1" by (rule outstanding_step)
  then have "outstanding (run cfg evs (step cfg ev s)) \<le> 1" by (rule Cons.IH)
  then show ?case by simp
qed

text \<open>
  C2. In every state the pipeline reaches from its initial state, at most one
  capture-to-inference round trip is in flight. A tick of a running (or degraded)
  scheduler that finds a cycle outstanding changes nothing but the skip counter, which
  it increments: it starts no second capture.
\<close>

theorem single_round_trip:
  "outstanding (run cfg evs (init cfg)) \<le> 1
   \<and> ((health (run cfg evs (init cfg)) = Running \<or> health (run cfg evs (init cfg)) = Degraded)
        \<and> 0 < outstanding (run cfg evs (init cfg))
      \<longrightarrow> step cfg Tick (run cfg evs (init cfg))
            = (run cfg evs (init cfg))\<lparr>skipped := Suc (skipped (run cfg evs (init cfg)))\<rparr>)
   \<and> outstanding (step cfg Tick (run cfg evs (init cfg))) \<le> 1"
proof -
  have "outstanding (init cfg) \<le> 1" by (simp add: init_def)
  then have le: "outstanding (run cfg evs (init cfg)) \<le> 1" by (rule outstanding_run)
  have "outstanding (step cfg Tick (run cfg evs (init cfg))) \<le> 1"
    using le by (rule outstanding_step)
  then show ?thesis using le by (auto simp: tick_def)
qed

text \<open>A second tick while the first cycle is in flight.\<close>

theorem single_round_trip_witness:
  "health (run demo_config [Start, Tick] (init demo_config)) = Running
   \<and> outstanding (run demo_config [Start, Tick] (init demo_config)) = 1
   \<and> outstanding (step demo_config Tick (run demo_config [Start, Tick] (init demo_config))) = 1
   \<and> skipped (step demo_config Tick (run demo_config [Start, Tick] (init demo_config))) = 1"
  using single_round_trip [of demo_config "[Start, Tick]"]
  by (simp add: pipeline_defs demo_defs)

section \<open>Capture Scheduler: backoff\<close>

lemma capture_fields_inference [simp]:
  "retryInterval (inference_failed cfg s) = retryInterval s"
  "retryInterval (gaze_accepted cfg g now s) = retryInterval s"
  "consecutiveCaptureFailures (inference_failed cfg s) = consecutiveCaptureFailures s"
  "consecutiveCaptureFailures (gaze_accepted cfg g now s) = consecutiveCaptureFailures s"
  by (simp_all add: inference_failed_def gaze_accepted_def Let_def)

lemma capture_fields_apply_landmarks [simp]:
  "retryInterval (apply_landmarks cfg lm now s) = retryInterval s"
  "consecutiveCaptureFailures (apply_landmarks cfg lm now s) = consecutiveCaptureFailures s"
  by (simp_all add: apply_landmarks_def split: option.splits)

lemma timer_fields_outcomes [simp]:
  "lastAttempt (capture_failed cfg s) = lastAttempt s"
  "lastAttempt (capture_succeeded cfg s) = lastAttempt s"
  "lastAttempt (inference_failed cfg s) = lastAttempt s"
  "lastAttempt (gaze_accepted cfg g now s) = lastAttempt s"
  "clock (capture_failed cfg s) = clock s"
  "clock (capture_succeeded cfg s) = clock s"
  "clock (inference_failed cfg s) = clock s"
  "clock (gaze_accepted cfg g now s) = clock s"
  by (simp_all add: capture_failed_def capture_succeeded_def inference_failed_def
      gaze_accepted_def Let_def)

lemma timer_fields_apply_landmarks [simp]:
  "lastAttempt (apply_landmarks cfg lm now s) = lastAttempt s"
  "clock (apply_landmarks cfg lm now s) = clock s"
  by (simp_all add: apply_landmarks_def split: option.splits)












section \<open>Gaze slot: low confidence holds the last vector\<close>

lemma gazeSlot_outcomes [simp]:
  "gazeSlot (capture_failed cfg s) = gazeSlot s"
  "gazeSlot (capture_succeeded cfg s) = gazeSlot s"
  "gazeSlot (inference_failed cfg s) = gazeSlot s"
  by (simp_all add: capture_failed_def capture_succeeded_def inference_failed_def Let_def)

lemma gazeSlot_low_confidence:
  "eyeConfidence lm < confidenceThreshold cfg \<Longrightarrow>
   gazeSlot (apply_landmarks cfg lm now s) = gazeSlot s"
  by (simp add: apply_landmarks_def split: option.splits)

lemma gazeSlot_valid:
  "\<not> eyeConfidence lm < confidenceThreshold cfg \<Longrightarrow> gaze_of s lm = Some g \<Longrightarrow>
   gazeSlot (apply_landmarks cfg lm now s) = Some (g, now)"
  by (simp add: apply_landmarks_def gaze_accepted_def)

lemma gaze_of_neutralRef: "neutralRef s = neutralRef s' \<Longrightarrow> gaze_of s lm = gaze_of s' lm"
  by (simp add: gaze_of_def)

text \<open>
  C4. When the frame of a cycle converts and the inference engine returns a landmark
  set whose eye-region confidence is below the configured threshold, the cycle leaves
  the shared GazeVector slot as it was. The gaze read from the slot afterwards is the
  last accepted vector as long as the hold-timeout has not elapsed since its
  acceptance, and the neutral gaze once it has. A later cycle in flight whose landmark
  set is complete and reaches the threshold replaces the slot with the new vector.
\<close>

theorem low_confidence_holds:
  assumes "eyeConfidence lm < confidenceThreshold cfg"
    and "convert_frame f = Inr img" and "infer img = Landmarks lm"
  shows "gazeSlot (step cfg (Complete (Captured f) infer now) s) = gazeSlot s
     \<and> (\<forall>g t later. gazeSlot s = Some (g, t) \<longrightarrow>
          current_gaze cfg later (step cfg (Complete (Captured f) infer now) s)
            = (if holdTimeout cfg < later - t then neutral_gaze else g))
     \<and> (\<forall>infer2 lm2 g2 now2.
          0 < outstanding s \<and> health s \<noteq> Stopped \<and> infer2 img = Landmarks lm2
          \<and> \<not> eyeConfidence lm2 < confidenceThreshold cfg \<and> gaze_of s lm2 = Some g2
          \<longrightarrow> gazeSlot (step cfg (Complete (Captured f) infer2 now2) s) = Some (g2, now2))"
proof -
  have "gazeSlot (complete_cycle cfg (Captured f) infer now u) = gazeSlot u" for u
    using assms by (simp add: complete_cycle_def Let_def gazeSlot_low_confidence)
  then have held: "gazeSlot (complete_cycle cfg (Captured f) infer now (observe now s)) = gazeSlot s"
    by (simp add: observe_def)
  have new: "gazeSlot (complete_cycle cfg (Captured f) infer2 now2 (observe now2 s)) = Some (g2, now2)"
    if "0 < outstanding s" "health s \<noteq> Stopped" "infer2 img = Landmarks lm2"
      "\<not> eyeConfidence lm2 < confidenceThreshold cfg" "gaze_of s lm2 = Some g2"
    for infer2 lm2 g2 now2
  proof -
    have "gaze_of (capture_succeeded cfg ((observe now2 s)\<lparr>outstanding := outstanding s - 1\<rparr>)) lm2
            = Some g2"
      using that(5) by (simp add: gaze_of_def capture_succeeded_def observe_def)
    then show ?thesis
      using that(1-4) assms(2)
      by (simp add: complete_cycle_def Let_def gazeSlot_valid observe_def)
  qed
  show ?thesis using held new by (simp add: current_gaze_def)
qed

text \<open>
  A vector accepted at time 40 with hold-timeout 1000; the next cycle starts at the
  tick after time 50. A cycle with confidence 1/10
  leaves it in the slot, it is read until time 1040 and the gaze is neutral from 1041;
  a cycle with confidence 9/10 replaces it.
\<close>

theorem low_confidence_holds_witness:
  "eyeConfidence (demo_landmarks (1 / 10)) < confidenceThreshold demo_config
   \<and> convert_frame (demo_frame ''RGB8'') = Inr \<lparr>imageWidth = 1, imageHeight = 1, rgba = [1, 2, 3, 255]\<rparr>
   \<and> gazeSlot (run demo_config [Start, Tick, demo_seen (9 / 10) 40, Render 50, Tick] (init demo_config))
       = Some (demo_gaze, 40)
   \<and> gazeSlot (step demo_config (demo_seen (1 / 10) 90)
        (run demo_config [Start, Tick, demo_seen (9 / 10) 40, Render 50, Tick] (init demo_config)))
       = Some (demo_gaze, 40)
   \<and> current_gaze demo_config 1040 (step demo_config (demo_seen (1 / 10) 90)
        (run demo_config [Start, Tick, demo_seen (9 / 10) 40, Render 50, Tick] (init demo_config))) = demo_gaze
   \<and> current_gaze demo_config 1041 (step demo_config (demo_seen (1 / 10) 90)
        (run demo_config [Start, Tick, demo_seen (9 / 10) 40, Render 50, Tick] (init demo_config))) = neutral_gaze
   \<and> gazeSlot (step demo_config (demo_seen (9 / 10) 90)
        (run demo_config [Start, Tick, demo_seen (9 / 10) 40, Render 50, Tick] (init demo_config)))
       = Some (demo_gaze, 90)"
  using low_confidence_holds [of "demo_landmarks (1 / 10)" demo_config "demo_frame ''RGB8''"
      "\<lparr>imageWidth = 1, imageHeight = 1, rgba = [1, 2, 3, 255]\<rparr>"
      "\<lambda>_. Landmarks (demo_landmarks (1 / 10))" 90
      "run demo_config [Start, Tick, demo_seen (9 / 10) 40, Render 50, Tick] (init demo_config)"]
  by (simp add: pipeline_defs gaze_defs demo_defs sum_list_replicate)

section \<open>Gaze Computation is reproducible\<close>

lemma neutralRef_outcomes [simp]:
  "neutralRef (capture_failed cfg s) = neutralRef s"
  "neutralRef (capture_succeeded cfg s) = neutralRef s"
  "neutralRef (inference_failed cfg s) = neutralRef s"
  "neutralRef (gaze_accepted cfg g now s) = neutralRef s"
  by (simp_all add: capture_failed_def capture_succeeded_def inference_failed_def
      gaze_accepted_def Let_def)

lemma neutralRef_apply_landmarks:
  "neutralRef s = Some r \<Longrightarrow> neutralRef (apply_landmarks cfg lm now s) = Some r"
  by (simp add: apply_landmarks_def split: option.splits)

lemma neutralRef_complete_cycle:
  "neutralRef s = Some r \<Longrightarrow> neutralRef (complete_cycle cfg cam infer now s) = Some r"
  by (simp add: complete_cycle_def Let_def neutralRef_apply_landmarks
      split: camera_result.splits sum.splits inference_result.splits)

lemma neutralRef_step: "neutralRef s = Some r \<Longrightarrow> neutralRef (step cfg ev s) = Some r"
  by (cases ev)
    (simp_all add: start_def stop_def tick_def render_tick_def observe_def Let_def
      neutralRef_complete_cycle)

lemma neutralRef_run: "neutralRef s = Some r \<Longrightarrow> neutralRef (run cfg evs s) = Some r"
  by (induction evs arbitrary: s) (simp_all add: neutralRef_step)

text \<open>
  C5. The result of Gaze Computation on a landmark set depends on the pipeline state
  only through the neutral reference: two states with the same reference give the same
  per-eye offsets; and once the reference is calibrated, every state reached later, by
  any sequence of events, gives the result of the pure function on that reference and
  the landmark set.
\<close>

theorem gaze_computation_reproducible:
  "(neutralRef s1 = neutralRef s2 \<longrightarrow> gaze_of s1 lm = gaze_of s2 lm)
   \<and> (neutralRef s = Some r \<longrightarrow>
        gaze_of s lm = gaze_computation r lm \<and> gaze_of (run cfg evs s) lm = gaze_computation r lm)"
  by (simp add: gaze_of_def neutralRef_run)

text \<open>The same landmark set before the start and after a capture, a draw and a failure.\<close>

theorem gaze_computation_reproducible_witness:
  "neutralRef (init demo_config) = Some (origin, origin)
   \<and> neutralRef (init demo_config)
       = neutralRef (run demo_config [Start, Tick, demo_seen (9 / 10) 40, Render 50, Tick, demo_busy 90] (init demo_config))
   \<and> gaze_of (init demo_config) (demo_landmarks (9 / 10)) = Some demo_gaze
   \<and> gaze_of (run demo_config [Start, Tick, demo_seen (9 / 10) 40, Render 50, Tick, demo_busy 90] (init demo_config))
       (demo_landmarks (9 / 10)) = Some demo_gaze"
  using gaze_computation_reproducible [where ?s1.0 = "init demo_config"
      and ?s2.0 = "run demo_config [Start, Tick, demo_seen (9 / 10) 40, Render 50, Tick, demo_busy 90] (init demo_config)"
      and lm = "demo_landmarks (9 / 10)" and s = "init demo_config" and r = "(origin, origin)"
      and cfg = demo_config
      and evs = "[Start, Tick, demo_seen (9 / 10) 40, Render 50, Tick, demo_busy 90]"]
  by (simp add: pipeline_defs gaze_defs demo_defs sum_list_replicate)

section \<open>Frame conversion and the pixel format\<close>





end
